theory Spec2Isabelle
  imports Main "HOL-Library.Sublist" "HOL-Library.Word"
begin

unbundle bit_operations_syntax

section \<open>The \<open>secret set\<close> command of pkg/cmd/secret/set/set.go\<close>

text \<open>
  A shallow embedding of \<^verbatim>\<open>set.go\<close>: the name validator \<^verbatim>\<open>validSecretName\<close>, the flag
  checks of the command's \<^verbatim>\<open>RunE\<close>, \<^verbatim>\<open>getBody\<close> and the pipeline \<^verbatim>\<open>setRun\<close>.
  Go strings are byte strings (\<open>string\<close>), \<^verbatim>\<open>[]byte\<close> is \<open>bytes\<close>, a Go \<^verbatim>\<open>error\<close> is a value
  of the datatype \<open>error\<close>, and a function that returns \<^verbatim>\<open>(T, error)\<close> returns
  \<open>error + T\<close>. Calls to collaborators are recorded in a trace.
\<close>

subsection \<open>Bytes and errors\<close>

type_synonym byte = "8 word"
type_synonym bytes = "byte list"

text \<open>\<^verbatim>\<open>[]byte(s)\<close> for a Go string \<^verbatim>\<open>s\<close>.\<close>

definition bytes_of_string :: "string \<Rightarrow> bytes" where
  "bytes_of_string s = map of_char s"

text \<open>
  \<open>Err m\<close> is \<^verbatim>\<open>errors.New(m)\<close>, \<open>FlagError e\<close> is \<^verbatim>\<open>&cmdutil.FlagError{Err: e}\<close>,
  \<open>Wrapped m e\<close> is \<^verbatim>\<open>fmt.Errorf(m + ": %w", e)\<close>, \<open>CryptoError\<close> is the spec's error of
  the sealing stage, and \<open>Panic\<close> is a run-time panic (an index out of range).
\<close>

datatype error =
    Err string
  | FlagError error
  | Wrapped string error
  | CryptoError string
  | Panic string

subsection \<open>Regular expressions, as \<^verbatim>\<open>regexp.MatchString\<close> reads them\<close>

text \<open>
  The operators of Go's \<^verbatim>\<open>regexp/syntax\<close> that the two patterns of \<^verbatim>\<open>validSecretName\<close>
  use. \<open>OpBeginText\<close> is \<^verbatim>\<open>^\<close> and \<open>OpEndText\<close> is \<^verbatim>\<open>$\<close>: without the \<^verbatim>\<open>m\<close> flag they
  match at the beginning and at the end of the text only. A character class is a list of
  inclusive ranges.
\<close>

datatype regex =
    OpBeginText
  | OpEndText
  | OpCharClass "(char \<times> char) list"
  | OpLiteral char
  | OpAlternate regex regex
  | OpConcat regex regex
  | OpPlus regex
  | OpStar regex

fun in_ranges :: "(char \<times> char) list \<Rightarrow> char \<Rightarrow> bool" where
  "in_ranges [] c = False"
| "in_ranges ((lo, hi) # rs) c =
     (((of_char lo :: nat) \<le> of_char c \<and> (of_char c :: nat) \<le> of_char hi) \<or> in_ranges rs c)"

text \<open>
  \<open>ends re s i\<close> lists the positions \<open>j\<close> such that \<open>re\<close> matches the text \<open>s\<close> from
  position \<open>i\<close> to position \<open>j\<close>. A repetition goes on only from a position further
  right, which loses no match and makes the recursion terminate.
\<close>

function ends :: "regex \<Rightarrow> string \<Rightarrow> nat \<Rightarrow> nat list" where
  "ends OpBeginText s i = (if i = 0 then [i] else [])"
| "ends OpEndText s i = (if i = length s then [i] else [])"
| "ends (OpCharClass rs) s i = (if i < length s \<and> in_ranges rs (s ! i) then [Suc i] else [])"
| "ends (OpLiteral c) s i = (if i < length s \<and> s ! i = c then [Suc i] else [])"
| "ends (OpAlternate a b) s i = ends a s i @ ends b s i"
| "ends (OpConcat a b) s i = concat (map (ends b s) (ends a s i))"
| "ends (OpPlus a) s i =
     concat (map (\<lambda>j. j # (if i < j \<and> j \<le> length s then ends (OpPlus a) s j else []))
                 (ends a s i))"
| "ends (OpStar a) s i =
     i # concat (map (\<lambda>j. if i < j \<and> j \<le> length s then ends (OpStar a) s j else [])
                     (ends a s i))"
  by pat_completeness auto
termination
  by (relation "measures [\<lambda>(r, s, i). size r, \<lambda>(r, s, i). length s - i]") auto

declare ends.simps(7,8) [simp del]

text \<open>\<^verbatim>\<open>re.MatchString(s)\<close>: the text contains a match of the pattern, starting anywhere.\<close>

definition MatchString :: "regex \<Rightarrow> string \<Rightarrow> bool" where
  "MatchString re s = list_ex (\<lambda>i. ends re s i \<noteq> []) [0..<Suc (length s)]"

subsection \<open>\<^verbatim>\<open>validSecretName\<close>\<close>

text \<open>\<^verbatim>\<open>regexp.MustCompile(`^[0-9]`)\<close>\<close>

definition leadingNumber :: regex where
  "leadingNumber = OpConcat OpBeginText (OpCharClass [(CHR ''0'', CHR ''9'')])"

text \<open>\<^verbatim>\<open>regexp.MustCompile(`^([0-9]|[a-z]|[A-Z]|_)+$`)\<close>\<close>

definition validChars :: regex where
  "validChars =
     OpConcat OpBeginText
       (OpConcat
          (OpPlus (OpAlternate
                     (OpAlternate
                        (OpAlternate (OpCharClass [(CHR ''0'', CHR ''9'')])
                                     (OpCharClass [(CHR ''a'', CHR ''z'')]))
                        (OpCharClass [(CHR ''A'', CHR ''Z'')]))
                     (OpLiteral (CHR ''_''))))
          OpEndText)"

definition validSecretName :: "string \<Rightarrow> error + unit" where
  "validSecretName name =
     (if name = [] then Inl (Err ''secret name cannot be blank'')
      else if prefix ''GITHUB_'' name then Inl (Err ''secret name cannot begin with GITHUB_'')
      else if MatchString leadingNumber name then
        Inl (Err ''secret name cannot start with a number'')
      else if \<not> MatchString validChars name then
        Inl (Err ''secret name can only contain letters, numbers, and _'')
      else Inr ())"

text \<open>
  The spec's side of the comparison: its pattern \<^verbatim>\<open>^[A-Za-z_][A-Za-z0-9_]*$\<close> and the
  character sets its rules name, a digit \<^verbatim>\<open>0\<close>-\<^verbatim>\<open>9\<close> and a character of \<^verbatim>\<open>[A-Za-z0-9_]\<close>.
\<close>

definition spec_name_pattern :: regex where
  "spec_name_pattern =
     OpConcat OpBeginText
       (OpConcat
          (OpCharClass [(CHR ''A'', CHR ''Z''), (CHR ''a'', CHR ''z''), (CHR ''_'', CHR ''_'')])
          (OpConcat
             (OpStar (OpCharClass [(CHR ''A'', CHR ''Z''), (CHR ''a'', CHR ''z''),
                                   (CHR ''0'', CHR ''9''), (CHR ''_'', CHR ''_'')]))
             OpEndText))"

definition is_digit :: "char \<Rightarrow> bool" where
  "is_digit c = in_ranges [(CHR ''0'', CHR ''9'')] c"

definition is_name_char :: "char \<Rightarrow> bool" where
  "is_name_char c =
     in_ranges [(CHR ''A'', CHR ''Z''), (CHR ''a'', CHR ''z''), (CHR ''0'', CHR ''9''),
                (CHR ''_'', CHR ''_'')] c"

definition starts_with_digit :: "string \<Rightarrow> bool" where
  "starts_with_digit name = (case name of [] \<Rightarrow> False | c # _ \<Rightarrow> is_digit c)"

subsection \<open>Options, flags and collaborators\<close>

text \<open>
  An \<^verbatim>\<open>io.Reader\<close> of random bytes is the finite sequence of bytes it will deliver, from
  its start: a run that is given the same source again reads the same bytes.
  \<^verbatim>\<open>io.ReadFull\<close> of \<open>n\<close> bytes fails when fewer are left.
\<close>

type_synonym reader = bytes

definition ReadFull :: "reader \<Rightarrow> nat \<Rightarrow> error + bytes" where
  "ReadFull r n = (if length r < n then Inl (Err ''unexpected EOF'') else Inr (take n r))"

text \<open>
  Modelled from the spec: \<^verbatim>\<open>PubKey\<close>, declared outside src/. The spec's data model
  gives it 32 bytes of key material and a key identifier.
\<close>

record PubKey =
  Raw :: bytes
  ID :: string

text \<open>
  \<^verbatim>\<open>SetOptions\<close>. Its fields \<^verbatim>\<open>HttpClient\<close>, \<^verbatim>\<open>IO\<close>, \<^verbatim>\<open>Config\<close> and \<^verbatim>\<open>BaseRepo\<close> are the
  collaborators of the record \<open>deps\<close> below.
\<close>

record SetOptions =
  RandomOverride :: "reader option"
  SecretName :: string
  OrgName :: string
  EnvName :: string
  Body :: string
  Visibility :: string
  RepositoryNames :: "string list"

text \<open>
  The command line after cobra has parsed it: a flag that was passed holds \<open>Some\<close> of its
  value, and \<^verbatim>\<open>cmd.Flags().Changed(name)\<close> is then true; a flag that was not passed holds
  its default.
\<close>

record flags =
  flag_org :: "string option"
  flag_env :: "string option"
  flag_visibility :: "string option"
  flag_repos :: "string list option"
  flag_body :: "string option"

definition Changed :: "'a option \<Rightarrow> bool" where
  "Changed f = (f \<noteq> None)"

definition flag_value :: "'a \<Rightarrow> 'a option \<Rightarrow> 'a" where
  "flag_value dflt f = (case f of None \<Rightarrow> dflt | Some v \<Rightarrow> v)"

type_synonym client = nat
type_synonym config = nat
type_synonym repo = string

text \<open>
  Modelled from the spec: the sealed-box construction of \<^verbatim>\<open>box.SealAnonymous\<close>
  (golang.org/x/crypto/nacl/box, not under src/). The spec's section 4.4 gives the
  algorithm; its primitives are parameters, typed by the size of what they return: the
  public key of a private key (32 bytes), the hash with 24 bytes of output, and the
  authenticated encryption under (ephemeral private key, recipient public key, nonce),
  which is a 16-byte authentication tag and the plaintext combined with a key stream.
\<close>

record nacl =
  public_key_of :: "bytes \<Rightarrow> 256 word"
  hash24 :: "bytes \<Rightarrow> 192 word"
  keystream :: "bytes \<Rightarrow> bytes \<Rightarrow> 192 word \<Rightarrow> nat \<Rightarrow> byte"
  auth_tag :: "bytes \<Rightarrow> bytes \<Rightarrow> 192 word \<Rightarrow> bytes \<Rightarrow> 128 word"

text \<open>The \<open>n\<close> bytes of a fixed-size array held in a word, lowest byte first.\<close>

definition le_bytes :: "nat \<Rightarrow> 'a::len word \<Rightarrow> bytes" where
  "le_bytes n w = map (\<lambda>i. ucast (drop_bit (8 * i) w)) [0..<n]"

text \<open>
  Modelled from the spec: \<^verbatim>\<open>seal(plaintext, recipientPublicKey, randomSource)\<close> of section
  4.4. A nil \<^verbatim>\<open>rand\<close> stands for the system's secure source \<open>sys\<close>; \<open>out\<close> is the slice
  the result is appended to (\<^verbatim>\<open>setRun\<close> passes nil). A recipient key of the wrong length is
  \<open>CryptoError ''bad-key''\<close>, a source that cannot deliver the 32 bytes of the ephemeral
  private key is \<open>CryptoError ''rng-failure''\<close>. The output is the ephemeral public key
  followed by the authenticated ciphertext.
\<close>

definition SealAnonymous ::
  "nacl \<Rightarrow> bytes \<Rightarrow> bytes \<Rightarrow> bytes \<Rightarrow> reader option \<Rightarrow> reader \<Rightarrow> error + bytes" where
  "SealAnonymous p out message recipient rand sys =
     (if length recipient \<noteq> 32 then Inl (CryptoError ''bad-key'')
      else
        case ReadFull (case rand of None \<Rightarrow> sys | Some r \<Rightarrow> r) 32 of
          Inl err \<Rightarrow> Inl (CryptoError ''rng-failure'')
        | Inr ephemeralPriv \<Rightarrow>
            (let ephemeralPub = le_bytes 32 (public_key_of p ephemeralPriv);
                 nonce = hash24 p (ephemeralPub @ recipient);
                 ciphertext =
                   map (\<lambda>i. message ! i XOR keystream p ephemeralPriv recipient nonce i)
                     [0..<length message];
                 tag = le_bytes 16 (auth_tag p ephemeralPriv recipient nonce ciphertext)
             in Inr (out @ ephemeralPub @ tag @ ciphertext)))"

text \<open>
  The collaborators of one invocation and what each answers: the terminal, the prompt,
  standard input, the HTTP client factory, the base repository, the configuration, the
  key and write endpoints of http.go (not under src/), base64, and the randomness of the
  system. \<^verbatim>\<open>baseRepo\<close> is a nil interface when an organization is given, hence \<open>repo option\<close>.
\<close>

record deps =
  CanPrompt :: bool
  SurveyAskOne :: "error + string"
  ReadAll :: "error + bytes"
  HttpClient :: "error + client"
  BaseRepo :: "error + repo"
  Config :: "error + config"
  DefaultHost :: "config \<Rightarrow> error + string"
  getOrgPublicKey :: "client \<Rightarrow> string \<Rightarrow> string \<Rightarrow> error + PubKey"
  getRepoPubKey :: "client \<Rightarrow> repo option \<Rightarrow> error + PubKey"
  putOrgSecret :: "client \<Rightarrow> string \<Rightarrow> PubKey \<Rightarrow> SetOptions \<Rightarrow> string \<Rightarrow> error + unit"
  putEnvSecret ::
    "client \<Rightarrow> PubKey \<Rightarrow> repo option \<Rightarrow> string \<Rightarrow> string \<Rightarrow> string \<Rightarrow> error + unit"
  putRepoSecret :: "client \<Rightarrow> PubKey \<Rightarrow> repo option \<Rightarrow> string \<Rightarrow> string \<Rightarrow> error + unit"
  EncodeToString :: "bytes \<Rightarrow> string"
  IsStdoutTTY :: bool
  FullName :: "repo option \<Rightarrow> string"
  box :: nacl
  cryptorand :: reader

subsection \<open>Effects: a trace of calls\<close>

datatype event =
    EvSurveyAskOne
  | EvFprintln
  | EvReadAll
  | EvHttpClient
  | EvBaseRepo
  | EvConfig
  | EvDefaultHost config
  | EvGetOrgPublicKey client string string
  | EvGetRepoPubKey client "repo option"
  | EvSealAnonymous bytes bytes
  | EvPutOrgSecret client string PubKey SetOptions string
  | EvPutEnvSecret client PubKey "repo option" string string string
  | EvPutRepoSecret client PubKey "repo option" string string
  | EvFprintf string string

text \<open>
  A computation yields the calls it made, each with whether it succeeded, and an error or
  a result. \<open>io_bind\<close> is sequencing with Go's \<^verbatim>\<open>if err != nil { return err }\<close>, and
  \<open>io_wrap\<close> is \<^verbatim>\<open>fmt.Errorf(msg + ": %w", err)\<close> on that return.
\<close>

type_synonym trace = "(event \<times> bool) list"
type_synonym 'a io = "trace \<times> (error + 'a)"

definition io_return :: "'a \<Rightarrow> 'a io" where
  "io_return x = ([], Inr x)"

definition io_fail :: "error \<Rightarrow> 'a io" where
  "io_fail err = ([], Inl err)"

definition io_call :: "event \<Rightarrow> error + 'a \<Rightarrow> 'a io" where
  "io_call ev r = ([(ev, case r of Inl _ \<Rightarrow> False | Inr _ \<Rightarrow> True)], r)"

definition io_bind :: "'a io \<Rightarrow> ('a \<Rightarrow> 'b io) \<Rightarrow> 'b io" where
  "io_bind m f =
     (case snd m of
        Inl err \<Rightarrow> (fst m, Inl err)
      | Inr x \<Rightarrow> (fst m @ fst (f x), snd (f x)))"

definition io_wrap :: "string \<Rightarrow> 'a io \<Rightarrow> 'a io" where
  "io_wrap msg m =
     (case snd m of
        Inl err \<Rightarrow> (fst m, Inl (Wrapped msg err))
      | Inr x \<Rightarrow> m)"

subsection \<open>\<^verbatim>\<open>getBody\<close> and \<^verbatim>\<open>setRun\<close>\<close>

text \<open>
  \<^verbatim>\<open>getBody\<close> returns the plaintext; the prompt stores its answer in \<^verbatim>\<open>opts.Body\<close>, so the
  options are returned as well. In \<^verbatim>\<open>setRun\<close>, \<^verbatim>\<open>api.NewClientFromHTTP\<close> only wraps the
  HTTP client, which stands for the API client here; each call to a collaborator is one
  \<open>io_call\<close>, and \<^verbatim>\<open>box.SealAnonymous\<close> counts as one.
\<close>

definition getBody :: "deps \<Rightarrow> SetOptions \<Rightarrow> (SetOptions \<times> bytes) io" where
  "getBody d opts =
     (if Body opts = [] then
        (if CanPrompt d then
           io_bind (io_call EvSurveyAskOne (SurveyAskOne d)) (\<lambda>answer.
           let opts = opts\<lparr>Body := answer\<rparr> in
           io_bind (io_call EvFprintln (Inr ())) (\<lambda>_.
           io_return (opts, bytes_of_string (Body opts))))
         else
           io_bind (io_wrap ''failed to read from STDIN'' (io_call EvReadAll (ReadAll d)))
             (\<lambda>body. io_return (opts, body)))
      else io_return (opts, bytes_of_string (Body opts)))"

definition setRun :: "deps \<Rightarrow> SetOptions \<Rightarrow> unit io" where
  "setRun d opts0 =
     io_bind (io_wrap ''did not understand secret body'' (getBody d opts0)) (\<lambda>(opts, body).
     io_bind (io_wrap ''could not create http client'' (io_call EvHttpClient (HttpClient d)))
       (\<lambda>client.
     let orgName = OrgName opts; envName = EnvName opts in
     io_bind
       (if orgName = [] then
          io_wrap ''could not determine base repo''
            (io_call EvBaseRepo (map_sum id Some (BaseRepo d)))
        else io_return None) (\<lambda>baseRepo.
     io_bind (io_call EvConfig (Config d)) (\<lambda>cfg.
     io_bind (io_call (EvDefaultHost cfg) (DefaultHost d cfg)) (\<lambda>host.
     io_bind
       (io_wrap ''failed to fetch public key''
          (if orgName \<noteq> [] then
             io_call (EvGetOrgPublicKey client host orgName) (getOrgPublicKey d client host orgName)
           else io_call (EvGetRepoPubKey client baseRepo) (getRepoPubKey d client baseRepo)))
       (\<lambda>pk.
     io_bind
       (io_wrap ''failed to encrypt body''
          (io_call (EvSealAnonymous body (Raw pk))
             (SealAnonymous (box d) [] body (Raw pk) (RandomOverride opts) (cryptorand d))))
       (\<lambda>eBody.
     let encoded = EncodeToString d eBody in
     io_bind
       (io_wrap ''failed to set secret''
          (if orgName \<noteq> [] then
             io_call (EvPutOrgSecret client host pk opts encoded)
               (putOrgSecret d client host pk opts encoded)
           else if envName \<noteq> [] then
             io_call (EvPutEnvSecret client pk baseRepo envName (SecretName opts) encoded)
               (putEnvSecret d client pk baseRepo envName (SecretName opts) encoded)
           else
             io_call (EvPutRepoSecret client pk baseRepo (SecretName opts) encoded)
               (putRepoSecret d client pk baseRepo (SecretName opts) encoded)))
       (\<lambda>_.
     if IsStdoutTTY d then
       (let target = (if orgName = [] then FullName d baseRepo else orgName)
        in io_call (EvFprintf (SecretName opts) target) (Inr ()))
     else io_return ()))))))))"

subsection \<open>The command: \<^verbatim>\<open>Args\<close> and \<^verbatim>\<open>RunE\<close> of \<^verbatim>\<open>NewCmdSet\<close>\<close>

text \<open>
  Modelled from the spec: the visibility values \<^verbatim>\<open>shared.All\<close>, \<^verbatim>\<open>shared.Private\<close> and
  \<^verbatim>\<open>shared.Selected\<close> (package shared, not under src/); the spec and the command's own
  error message name them \<^verbatim>\<open>all\<close>, \<^verbatim>\<open>private\<close> and \<^verbatim>\<open>selected\<close>.
\<close>

definition shared_All :: string where
  "shared_All = ''all''"

definition shared_Private :: string where
  "shared_Private = ''private''"

definition shared_Selected :: string where
  "shared_Selected = ''selected''"

text \<open>
  Modelled from the spec: \<^verbatim>\<open>cmdutil.MutuallyExclusive\<close> (package cmdutil, not under src/).
  The spec's target resolution fails with "mutually exclusive target" when both the
  organization and the environment are given: more than one of the conditions holds.
\<close>

definition MutuallyExclusive :: "string \<Rightarrow> bool list \<Rightarrow> error + unit" where
  "MutuallyExclusive message conditions =
     (if 1 < length (filter id conditions) then Inl (FlagError (Err message)) else Inr ())"

definition Args :: "string list \<Rightarrow> error + unit" where
  "Args args =
     (if length args \<noteq> 1 then Inl (FlagError (Err ''must pass single secret name''))
      else Inr ())"

text \<open>The messages of the visibility checks; \<open>CHR 0x27\<close> is the single quote.\<close>

definition msg_visibility_needs_org :: string where
  "msg_visibility_needs_org =
     ''--visibility not supported for repository secrets; did you mean to pass --org?''"

definition msg_visibility_invalid :: string where
  "msg_visibility_invalid = ''--visibility must be one of `all`, `private`, or `selected`''"

definition msg_repos_unsupported :: string where
  "msg_repos_unsupported =
     ''--repos only supported when --visibility='' @ [CHR 0x27] @ ''selected'' @ [CHR 0x27]"

definition msg_repos_required :: string where
  "msg_repos_required =
     ''--repos flag required when --visibility='' @ [CHR 0x27] @ ''selected'' @ [CHR 0x27]"

text \<open>
  The visibility checks of \<^verbatim>\<open>RunE\<close> (the \<^verbatim>\<open>if cmd.Flags().Changed("visibility")\<close> statement
  with its \<^verbatim>\<open>else\<close> branch), which return an error or the options to run with.
\<close>

definition checkVisibility :: "flags \<Rightarrow> SetOptions \<Rightarrow> error + SetOptions" where
  "checkVisibility fl opts =
     (if Changed (flag_visibility fl) then
        (if OrgName opts = [] then Inl (FlagError (Err msg_visibility_needs_org))
         else if Visibility opts \<noteq> shared_All \<and> Visibility opts \<noteq> shared_Private
                 \<and> Visibility opts \<noteq> shared_Selected then
           Inl (FlagError (Err msg_visibility_invalid))
         else if Visibility opts \<noteq> shared_Selected \<and> Changed (flag_repos fl) then
           Inl (FlagError (Err msg_repos_unsupported))
         else if Visibility opts = shared_Selected \<and> \<not> Changed (flag_repos fl) then
           Inl (FlagError (Err msg_repos_required))
         else Inr opts)
      else
        (if Changed (flag_repos fl) then Inr (opts\<lparr>Visibility := shared_Selected\<rparr>)
         else Inr opts))"

text \<open>
  The options as the flags fill them before \<^verbatim>\<open>RunE\<close> runs: each flag's variable holds the
  flag's value or its default; \<^verbatim>\<open>NewCmdSet\<close> leaves \<^verbatim>\<open>RandomOverride\<close> nil.
\<close>

definition parsed_opts :: "flags \<Rightarrow> SetOptions" where
  "parsed_opts fl =
     \<lparr>RandomOverride = None,
      SecretName = [],
      OrgName = flag_value [] (flag_org fl),
      EnvName = flag_value [] (flag_env fl),
      Body = flag_value [] (flag_body fl),
      Visibility = flag_value ''private'' (flag_visibility fl),
      RepositoryNames = flag_value [] (flag_repos fl)\<rparr>"

definition RunE ::
  "deps \<Rightarrow> (SetOptions \<Rightarrow> unit io) option \<Rightarrow> flags \<Rightarrow> string list \<Rightarrow> unit io" where
  "RunE d runF fl args =
     (let opts = parsed_opts fl in
      case MutuallyExclusive ''specify only one of `--org` or `--env`''
             [OrgName opts \<noteq> [], EnvName opts \<noteq> []] of
        Inl err \<Rightarrow> io_fail err
      | Inr _ \<Rightarrow>
          (case args of
             [] \<Rightarrow> io_fail (Panic ''index out of range'')
           | a # _ \<Rightarrow>
               (let opts = opts\<lparr>SecretName := a\<rparr> in
                case validSecretName (SecretName opts) of
                  Inl err \<Rightarrow> io_fail err
                | Inr _ \<Rightarrow>
                    (case checkVisibility fl opts of
                       Inl err \<Rightarrow> io_fail err
                     | Inr opts \<Rightarrow>
                         (case runF of
                            Some f \<Rightarrow> f opts
                          | None \<Rightarrow> setRun d opts)))))"

text \<open>Running the command that \<^verbatim>\<open>NewCmdSet\<close> builds: cobra checks \<^verbatim>\<open>Args\<close>, then calls \<^verbatim>\<open>RunE\<close>.\<close>

definition NewCmdSet ::
  "deps \<Rightarrow> (SetOptions \<Rightarrow> unit io) option \<Rightarrow> flags \<Rightarrow> string list \<Rightarrow> unit io" where
  "NewCmdSet d runF fl args =
     (case Args args of
        Inl err \<Rightarrow> io_fail err
      | Inr _ \<Rightarrow> RunE d runF fl args)"

subsection \<open>Reading a trace\<close>

text \<open>The remote endpoints: the two key fetches and the three writes.\<close>

datatype endpoint = OrgKey | RepoKey | OrgWrite | EnvWrite | RepoWrite

fun endpoint_of :: "event \<Rightarrow> endpoint option" where
  "endpoint_of (EvGetOrgPublicKey _ _ _) = Some OrgKey"
| "endpoint_of (EvGetRepoPubKey _ _) = Some RepoKey"
| "endpoint_of (EvPutOrgSecret _ _ _ _ _) = Some OrgWrite"
| "endpoint_of (EvPutEnvSecret _ _ _ _ _ _) = Some EnvWrite"
| "endpoint_of (EvPutRepoSecret _ _ _ _ _) = Some RepoWrite"
| "endpoint_of _ = None"

definition remote_calls :: "trace \<Rightarrow> endpoint list" where
  "remote_calls t = List.map_filter (\<lambda>c. endpoint_of (fst c)) t"

text \<open>The routing the spec states, by the options' organization and environment.\<close>

definition key_route :: "SetOptions \<Rightarrow> endpoint" where
  "key_route opts = (if OrgName opts \<noteq> [] then OrgKey else RepoKey)"

definition write_route :: "SetOptions \<Rightarrow> endpoint" where
  "write_route opts =
     (if OrgName opts \<noteq> [] then OrgWrite
      else if EnvName opts \<noteq> [] then EnvWrite
      else RepoWrite)"

text \<open>The stages of the spec's pipeline that call out.\<close>

datatype stage = PublicKeyProvider | SealedBoxEncryptor | SecretDispatcher

fun stage_of :: "event \<Rightarrow> stage option" where
  "stage_of (EvGetOrgPublicKey _ _ _) = Some PublicKeyProvider"
| "stage_of (EvGetRepoPubKey _ _) = Some PublicKeyProvider"
| "stage_of (EvSealAnonymous _ _) = Some SealedBoxEncryptor"
| "stage_of (EvPutOrgSecret _ _ _ _ _) = Some SecretDispatcher"
| "stage_of (EvPutEnvSecret _ _ _ _ _ _) = Some SecretDispatcher"
| "stage_of (EvPutRepoSecret _ _ _ _ _) = Some SecretDispatcher"
| "stage_of _ = None"

definition stages :: "trace \<Rightarrow> stage list" where
  "stages t = List.map_filter (\<lambda>c. stage_of (fst c)) t"


text \<open>A run is orderly when every call but its last succeeded, and every call of a run
  that returns a result.\<close>

definition orderly :: "'a io \<Rightarrow> bool" where
  "orderly m \<longleftrightarrow>
     list_all snd (butlast (fst m)) \<and>
     (case snd m of Inl _ \<Rightarrow> True | Inr _ \<Rightarrow> list_all snd (fst m))"

subsection \<open>The spec's conditions on the flags\<close>

text \<open>
  The conditions (a)-(d) of the spec's target resolution, for an explicitly set
  visibility: no organization; a visibility that is none of all, private, selected; a
  visibility other than selected with the repos flag set; the visibility selected with
  the repos flag not set.
\<close>

definition visibility_violation :: "flags \<Rightarrow> SetOptions \<Rightarrow> bool" where
  "visibility_violation fl opts \<longleftrightarrow>
     OrgName opts = []
     \<or> Visibility opts \<notin> set [shared_All, shared_Private, shared_Selected]
     \<or> (Visibility opts \<noteq> shared_Selected \<and> Changed (flag_repos fl))
     \<or> (Visibility opts = shared_Selected \<and> \<not> Changed (flag_repos fl))"

text \<open>What \<^verbatim>\<open>RunE\<close> ends with: \<^verbatim>\<open>runF\<close> when it is given (the tests' hook), else \<^verbatim>\<open>setRun\<close>.\<close>

definition run_with :: "deps \<Rightarrow> (SetOptions \<Rightarrow> unit io) option \<Rightarrow> SetOptions \<Rightarrow> unit io" where
  "run_with d runF opts = (case runF of Some f \<Rightarrow> f opts | None \<Rightarrow> setRun d opts)"

subsection \<open>An example invocation\<close>

text \<open>
  Collaborators that all succeed, with standard input \<^verbatim>\<open>piped\<close> and no terminal, and the
  command line \<^verbatim>\<open>gh secret set MYSECRET -bval\<close> (the spec's scenario A). The primitives
  and the encoder of the example are stand-ins.
\<close>

definition example_nacl :: nacl where
  "example_nacl =
     \<lparr>public_key_of = (\<lambda>sk. 9),
      hash24 = (\<lambda>bs. 24),
      keystream = (\<lambda>sk pk nonce i. of_nat i),
      auth_tag = (\<lambda>sk pk nonce ct. 16)\<rparr>"

definition example_key :: PubKey where
  "example_key = \<lparr>Raw = replicate 32 1, ID = ''123''\<rparr>"

definition example_deps :: deps where
  "example_deps =
     \<lparr>CanPrompt = False,
      SurveyAskOne = Inr ''typed'',
      ReadAll = Inr (bytes_of_string ''piped''),
      HttpClient = Inr 0,
      BaseRepo = Inr ''owner/repo'',
      Config = Inr 0,
      DefaultHost = (\<lambda>cfg. Inr ''github.com''),
      getOrgPublicKey = (\<lambda>client host org. Inr example_key),
      getRepoPubKey = (\<lambda>client baseRepo. Inr example_key),
      putOrgSecret = (\<lambda>client host pk opts encoded. Inr ()),
      putEnvSecret = (\<lambda>client pk baseRepo envName secretName encoded. Inr ()),
      putRepoSecret = (\<lambda>client pk baseRepo secretName encoded. Inr ()),
      EncodeToString = (\<lambda>bs. map (\<lambda>b. char_of (unat b)) bs),
      IsStdoutTTY = False,
      FullName = (\<lambda>baseRepo. case baseRepo of None \<Rightarrow> [] | Some r \<Rightarrow> r),
      box = example_nacl,
      cryptorand = replicate 32 7\<rparr>"

definition example_flags :: flags where
  "example_flags =
     \<lparr>flag_org = None, flag_env = None, flag_visibility = None, flag_repos = None,
      flag_body = Some ''val''\<rparr>"

definition example_opts :: SetOptions where
  "example_opts = (parsed_opts example_flags)\<lparr>SecretName := ''MYSECRET''\<rparr>"

section \<open>Properties\<close>

subsection \<open>The patterns of \<^verbatim>\<open>validSecretName\<close>\<close>

lemma OpPlus_step_ends:
  assumes step: "\<And>i. set (ends r s i) = (if i < length s \<and> P (s ! i) then {Suc i} else {})"
  shows "set (ends (OpPlus r) s i) =
    {j. i < j \<and> j \<le> length s \<and> (\<forall>k. i \<le> k \<and> k < j \<longrightarrow> P (s ! k))}"
proof (induction "length s - i" arbitrary: i rule: less_induct)
  case less
  show ?case
  proof (cases "i < length s \<and> P (s ! i)")
    case False
    have "set (ends (OpPlus r) s i) = {}"
      by (subst ends.simps(7)) (simp add: step False)
    moreover have "{j. i < j \<and> j \<le> length s \<and> (\<forall>k. i \<le> k \<and> k < j \<longrightarrow> P (s ! k))} = {}"
      using False by (auto simp: not_less)
    ultimately show ?thesis by simp
  next
    case True
    have IH: "set (ends (OpPlus r) s (Suc i)) =
        {j. Suc i < j \<and> j \<le> length s \<and> (\<forall>k. Suc i \<le> k \<and> k < j \<longrightarrow> P (s ! k))}"
    proof -
      have "length s - Suc i < length s - i" using True by arith
      then show ?thesis by (rule less)
    qed
    have "set (ends (OpPlus r) s i) = insert (Suc i) (set (ends (OpPlus r) s (Suc i)))"
      by (subst ends.simps(7)) (use True in \<open>simp add: step\<close>)
    also have "\<dots> = {j. i < j \<and> j \<le> length s \<and> (\<forall>k. i \<le> k \<and> k < j \<longrightarrow> P (s ! k))}"
      unfolding IH using True
      apply (auto simp: less_Suc_eq)
      by (metis Suc_leI le_neq_implies_less)
    finally show ?thesis .
  qed
qed

lemma OpStar_step_ends:
  assumes step: "\<And>i. set (ends r s i) = (if i < length s \<and> P (s ! i) then {Suc i} else {})"
    and bound: "i \<le> length s"
  shows "set (ends (OpStar r) s i) =
    {j. i \<le> j \<and> j \<le> length s \<and> (\<forall>k. i \<le> k \<and> k < j \<longrightarrow> P (s ! k))}"
  using bound
proof (induction "length s - i" arbitrary: i rule: less_induct)
  case less
  show ?case
  proof (cases "i < length s \<and> P (s ! i)")
    case False
    have "set (ends (OpStar r) s i) = {i}"
      by (subst ends.simps(8)) (simp add: step False)
    moreover have "{j. i \<le> j \<and> j \<le> length s \<and> (\<forall>k. i \<le> k \<and> k < j \<longrightarrow> P (s ! k))} = {i}"
      using False less.prems by (auto simp: not_less)
    ultimately show ?thesis by simp
  next
    case True
    have IH: "set (ends (OpStar r) s (Suc i)) =
        {j. Suc i \<le> j \<and> j \<le> length s \<and> (\<forall>k. Suc i \<le> k \<and> k < j \<longrightarrow> P (s ! k))}"
    proof -
      have "length s - Suc i < length s - i" and "Suc i \<le> length s" using True by arith+
      then show ?thesis by (rule less)
    qed
    have "set (ends (OpStar r) s i) = insert i (set (ends (OpStar r) s (Suc i)))"
      by (subst ends.simps(8)) (use True in \<open>simp add: step\<close>)
    also have "\<dots> = {j. i \<le> j \<and> j \<le> length s \<and> (\<forall>k. i \<le> k \<and> k < j \<longrightarrow> P (s ! k))}"
      unfolding IH using True
      apply (auto simp: less_Suc_eq)
      by (metis Suc_leI le_neq_implies_less)
    finally show ?thesis .
  qed
qed

lemma MatchString_OpBeginText:
  "MatchString (OpConcat OpBeginText r) s \<longleftrightarrow> ends r s 0 \<noteq> []"
  by (auto simp: MatchString_def list_ex_iff)

lemma ends_OpConcat_OpEndText:
  "ends (OpConcat r OpEndText) s i \<noteq> [] \<longleftrightarrow> length s \<in> set (ends r s i)"
  by auto

lemma ends_OpConcat_OpCharClass:
  "ends (OpConcat (OpCharClass rs) r) s i =
     (if i < length s \<and> in_ranges rs (s ! i) then ends r s (Suc i) else [])"
  by auto

lemma MatchString_leadingNumber: "MatchString leadingNumber name \<longleftrightarrow> starts_with_digit name"
  unfolding leadingNumber_def MatchString_OpBeginText starts_with_digit_def
  by (cases name) (simp_all add: is_digit_def)

lemma of_char_underscore: "of_char c = (95::nat) \<longleftrightarrow> c = CHR ''_''"
proof -
  have "of_char c = (95::nat) \<longleftrightarrow> (of_char c :: nat) = of_char (CHR ''_'')" by simp
  then show ?thesis by (simp only: of_char_eq_iff)
qed

lemma MatchString_validChars:
  "MatchString validChars name \<longleftrightarrow> name \<noteq> [] \<and> list_all is_name_char name"
proof -
  let ?cls = "OpAlternate
                (OpAlternate
                   (OpAlternate (OpCharClass [(CHR ''0'', CHR ''9'')])
                                (OpCharClass [(CHR ''a'', CHR ''z'')]))
                   (OpCharClass [(CHR ''A'', CHR ''Z'')]))
                (OpLiteral (CHR ''_''))"
  have step: "\<And>i. set (ends ?cls name i) =
      (if i < length name \<and> is_name_char (name ! i) then {Suc i} else {})"
    by (auto simp: is_name_char_def of_char_underscore)
  have "MatchString validChars name \<longleftrightarrow> length name \<in> set (ends (OpPlus ?cls) name 0)"
    unfolding validChars_def MatchString_OpBeginText ends_OpConcat_OpEndText ..
  also have "\<dots> \<longleftrightarrow> name \<noteq> [] \<and> list_all is_name_char name"
    unfolding OpPlus_step_ends[of ?cls name is_name_char, OF step]
    by (auto simp: list_all_length)
  finally show ?thesis .
qed

lemma MatchString_spec_name_pattern:
  "MatchString spec_name_pattern name \<longleftrightarrow>
     (case name of [] \<Rightarrow> False
      | c # cs \<Rightarrow> is_name_char c \<and> \<not> is_digit c \<and> list_all is_name_char cs)"
proof (cases name)
  case Nil
  then show ?thesis by (simp add: spec_name_pattern_def MatchString_OpBeginText)
next
  case (Cons c cs)
  let ?cls = "OpCharClass [(CHR ''A'', CHR ''Z''), (CHR ''a'', CHR ''z''),
                           (CHR ''0'', CHR ''9''), (CHR ''_'', CHR ''_'')]"
  have step: "\<And>i. set (ends ?cls name i) =
      (if i < length name \<and> is_name_char (name ! i) then {Suc i} else {})"
    by (auto simp: is_name_char_def)
  have first: "in_ranges [(CHR ''A'', CHR ''Z''), (CHR ''a'', CHR ''z''), (CHR ''_'', CHR ''_'')] c
      \<longleftrightarrow> is_name_char c \<and> \<not> is_digit c"
    by (auto simp: is_name_char_def is_digit_def)
  have tail: "length name \<in> set (ends (OpStar ?cls) name (Suc 0)) \<longleftrightarrow> list_all is_name_char cs"
  proof -
    have "Suc 0 \<le> length name" using Cons by simp
    note OpStar_step_ends[of ?cls name is_name_char "Suc 0", OF step this]
    then have "length name \<in> set (ends (OpStar ?cls) name (Suc 0)) \<longleftrightarrow>
        (\<forall>k. Suc 0 \<le> k \<and> k < length name \<longrightarrow> is_name_char (name ! k))"
      using Cons by simp
    also have "\<dots> \<longleftrightarrow> (\<forall>n < length cs. is_name_char (cs ! n))"
    proof
      assume h: "\<forall>k. Suc 0 \<le> k \<and> k < length name \<longrightarrow> is_name_char (name ! k)"
      show "\<forall>n < length cs. is_name_char (cs ! n)"
      proof (intro allI impI)
        fix n assume "n < length cs"
        then have "Suc 0 \<le> Suc n \<and> Suc n < length name" using Cons by simp
        then have "is_name_char (name ! Suc n)" using h by blast
        then show "is_name_char (cs ! n)" using Cons by simp
      qed
    next
      assume h: "\<forall>n < length cs. is_name_char (cs ! n)"
      show "\<forall>k. Suc 0 \<le> k \<and> k < length name \<longrightarrow> is_name_char (name ! k)"
      proof (intro allI impI)
        fix k assume k: "Suc 0 \<le> k \<and> k < length name"
        then obtain n where n: "k = Suc n" by (cases k) auto
        then have "n < length cs" using k Cons by simp
        then have "is_name_char (cs ! n)" using h by blast
        then show "is_name_char (name ! k)" using n Cons by simp
      qed
    qed
    finally show ?thesis by (simp add: list_all_length)
  qed
  have "MatchString spec_name_pattern name \<longleftrightarrow>
      ends (OpConcat
              (OpCharClass [(CHR ''A'', CHR ''Z''), (CHR ''a'', CHR ''z''), (CHR ''_'', CHR ''_'')])
              (OpConcat (OpStar ?cls) OpEndText)) name 0 \<noteq> []"
    unfolding spec_name_pattern_def MatchString_OpBeginText ..
  also have "\<dots> \<longleftrightarrow>
      in_ranges [(CHR ''A'', CHR ''Z''), (CHR ''a'', CHR ''z''), (CHR ''_'', CHR ''_'')] c
      \<and> length name \<in> set (ends (OpStar ?cls) name (Suc 0))"
    unfolding ends_OpConcat_OpCharClass using Cons
    by (simp only: ends_OpConcat_OpEndText list.size nth_Cons_0 split: if_splits) simp
  finally show ?thesis
    unfolding first tail using Cons by simp
qed

lemma validSecretName_rules:
  "validSecretName name =
     (if name = [] then Inl (Err ''secret name cannot be blank'')
      else if prefix ''GITHUB_'' name then Inl (Err ''secret name cannot begin with GITHUB_'')
      else if starts_with_digit name then Inl (Err ''secret name cannot start with a number'')
      else if list_ex (\<lambda>c. \<not> is_name_char c) name then
        Inl (Err ''secret name can only contain letters, numbers, and _'')
      else Inr ())"
  unfolding validSecretName_def MatchString_leadingNumber MatchString_validChars
  by (cases name) (auto simp: list_all_iff list_ex_iff)

lemma validSecretName_ok_iff:
  "validSecretName name = Inr () \<longleftrightarrow>
     MatchString spec_name_pattern name \<and> \<not> prefix ''GITHUB_'' name"
  unfolding validSecretName_rules MatchString_spec_name_pattern starts_with_digit_def
  by (cases name) (auto simp: list_all_iff list_ex_iff is_digit_def is_name_char_def)

text \<open>
  C4. \<^verbatim>\<open>validSecretName\<close> accepts exactly the names that match the spec's pattern
  \<^verbatim>\<open>^[A-Za-z_][A-Za-z0-9_]*$\<close> and do not begin with \<^verbatim>\<open>GITHUB_\<close>; for every other name it
  returns the error of the first violated rule, in the order blank, reserved prefix,
  leading digit, character outside \<^verbatim>\<open>[A-Za-z0-9_]\<close>.
\<close>

theorem validSecretName_spec:
  "(validSecretName name = Inr () \<longleftrightarrow>
      MatchString spec_name_pattern name \<and> \<not> prefix ''GITHUB_'' name) \<and>
   validSecretName name =
     (if name = [] then Inl (Err ''secret name cannot be blank'')
      else if prefix ''GITHUB_'' name then Inl (Err ''secret name cannot begin with GITHUB_'')
      else if starts_with_digit name then Inl (Err ''secret name cannot start with a number'')
      else if list_ex (\<lambda>c. \<not> is_name_char c) name then
        Inl (Err ''secret name can only contain letters, numbers, and _'')
      else Inr ())"
  using validSecretName_ok_iff validSecretName_rules by blast

theorem validSecretName_spec_witness:
  "validSecretName ''MY_SECRET1'' = Inr () \<and>
   MatchString spec_name_pattern ''MY_SECRET1'' \<and>
   validSecretName ''9SECRET'' = Inl (Err ''secret name cannot start with a number'')"
proof -
  note good = validSecretName_spec [of "''MY_SECRET1''"]
  note bad = validSecretName_spec [of "''9SECRET''"]
  have ok: "validSecretName ''MY_SECRET1'' = Inr ()"
    using good [THEN conjunct2]
    by (simp add: starts_with_digit_def is_digit_def is_name_char_def)
  moreover have "MatchString spec_name_pattern ''MY_SECRET1''"
    using good [THEN conjunct1] ok by simp
  moreover have "validSecretName ''9SECRET'' = Inl (Err ''secret name cannot start with a number'')"
    using bad [THEN conjunct2] by (simp add: starts_with_digit_def is_digit_def)
  ultimately show ?thesis by simp
qed

subsection \<open>Traces and sequencing\<close>

lemma fst_io_bind:
  "fst (io_bind m f) = (case snd m of Inl err \<Rightarrow> fst m | Inr x \<Rightarrow> fst m @ fst (f x))"
  by (simp add: io_bind_def split: sum.splits)

lemma snd_io_bind:
  "snd (io_bind m f) = (case snd m of Inl err \<Rightarrow> Inl err | Inr x \<Rightarrow> snd (f x))"
  by (simp add: io_bind_def split: sum.splits)

lemma fst_io_wrap: "fst (io_wrap msg m) = fst m"
  by (simp add: io_wrap_def split: sum.splits)

lemma snd_io_wrap:
  "snd (io_wrap msg m) = (case snd m of Inl err \<Rightarrow> Inl (Wrapped msg err) | Inr x \<Rightarrow> Inr x)"
  by (cases m) (simp add: io_wrap_def split: sum.splits)

lemma fst_io_call: "fst (io_call ev r) = [(ev, case r of Inl _ \<Rightarrow> False | Inr _ \<Rightarrow> True)]"
  by (simp add: io_call_def)

lemma snd_io_call: "snd (io_call ev r) = r"
  by (simp add: io_call_def)

lemma fst_io_return: "fst (io_return x) = []"
  by (simp add: io_return_def)

lemma snd_io_return: "snd (io_return x) = Inr x"
  by (simp add: io_return_def)

lemma fst_io_fail: "fst (io_fail err) = []"
  by (simp add: io_fail_def)

lemma snd_io_fail: "snd (io_fail err) = Inl err"
  by (simp add: io_fail_def)

lemmas io_simps =
  fst_io_bind snd_io_bind fst_io_wrap snd_io_wrap fst_io_call snd_io_call
  fst_io_return snd_io_return fst_io_fail snd_io_fail

lemma io_bind_cong_result:
  assumes "\<And>x. snd m = Inr x \<Longrightarrow> f x = g x"
  shows "io_bind m f = io_bind m g"
  using assms by (simp add: io_bind_def split: sum.splits)

lemma remote_calls_simps [simp]:
  "remote_calls [] = []"
  "remote_calls (t @ u) = remote_calls t @ remote_calls u"
  "remote_calls ((ev, ok) # t) =
     (case endpoint_of ev of None \<Rightarrow> remote_calls t | Some e \<Rightarrow> e # remote_calls t)"
  by (simp_all add: remote_calls_def List.map_filter_def split: option.splits)

lemma stages_simps [simp]:
  "stages [] = []"
  "stages (t @ u) = stages t @ stages u"
  "stages ((ev, ok) # t) =
     (case stage_of ev of None \<Rightarrow> stages t | Some s \<Rightarrow> s # stages t)"
  by (simp_all add: stages_def List.map_filter_def split: option.splits)

subsection \<open>The example invocation\<close>

lemmas example_defs =
  example_opts_def example_flags_def example_deps_def example_key_def example_nacl_def
  parsed_opts_def flag_value_def

lemma setRun_example_ok: "snd (setRun example_deps example_opts) = Inr ()"
  by (simp add: setRun_def getBody_def io_simps example_defs SealAnonymous_def ReadFull_def
      Let_def)

lemma MYSECRET_valid: "validSecretName ''MYSECRET'' = Inr ()"
  by (simp add: validSecretName_rules starts_with_digit_def is_digit_def is_name_char_def)

lemma NINE_invalid:
  "validSecretName ''9SECRET'' = Inl (Err ''secret name cannot start with a number'')"
  by (simp add: validSecretName_rules starts_with_digit_def is_digit_def)

subsection \<open>Routing of the key fetch and of the write\<close>

lemma getBody_remote_calls: "remote_calls (fst (getBody d opts)) = []"
  by (simp add: getBody_def io_simps Let_def split: sum.splits)

lemma getBody_keeps_target:
  "snd (getBody d opts) = Inr (opts', body) \<Longrightarrow>
     OrgName opts' = OrgName opts \<and> EnvName opts' = EnvName opts"
  by (auto simp: getBody_def io_simps Let_def split: sum.splits if_splits)

text \<open>
  C1. Every run of \<^verbatim>\<open>setRun\<close> makes at most one public-key fetch and at most one write
  call, the fetch first, and a run that succeeds makes exactly one of each. Both are
  routed by the options: with a non-empty \<^verbatim>\<open>OrgName\<close> the organization key and the
  organization write; otherwise the repository key, and the environment write when
  \<^verbatim>\<open>EnvName\<close> is non-empty, else the repository write. No run makes two writes, and no
  successful run makes none.
\<close>

theorem setRun_routing:
  "remote_calls (fst (setRun d opts)) \<in>
     {[], [key_route opts], [key_route opts, write_route opts]} \<and>
   (snd (setRun d opts) = Inr () \<longrightarrow>
      remote_calls (fst (setRun d opts)) = [key_route opts, write_route opts])"
proof (cases "snd (getBody d opts)")
  case (Inl err)
  then show ?thesis
    by (simp add: setRun_def io_simps getBody_remote_calls)
next
  case (Inr r)
  obtain opts' body where r: "r = (opts', body)" by (cases r)
  note keep = getBody_keeps_target [OF Inr [unfolded r]]
  show ?thesis
    using Inr r keep
    by (simp add: setRun_def io_simps Let_def
        getBody_remote_calls key_route_def write_route_def
        split: sum.splits)
qed

theorem setRun_routing_witness:
  "remote_calls (fst (setRun example_deps example_opts)) = [RepoKey, RepoWrite]"
  using setRun_routing [of example_deps example_opts] setRun_example_ok
  by (simp add: key_route_def write_route_def example_defs)

subsection \<open>The sealing stage\<close>

lemma SealAnonymous_override:
  "SealAnonymous p out message recipient (Some rnd) sys1 =
   SealAnonymous p out message recipient (Some rnd) sys2"
  by (simp add: SealAnonymous_def)

lemma getBody_keeps_RandomOverride:
  "snd (getBody d opts) = Inr (opts', body) \<Longrightarrow> RandomOverride opts' = RandomOverride opts"
  by (auto simp: getBody_def io_simps Let_def split: sum.splits if_splits)

lemma getBody_cryptorand: "getBody (d\<lparr>cryptorand := s\<rparr>) opts = getBody d opts"
  by (simp add: getBody_def)

lemma setRun_override:
  assumes "RandomOverride opts = Some rnd"
  shows "setRun (d\<lparr>cryptorand := sys1\<rparr>) opts = setRun (d\<lparr>cryptorand := sys2\<rparr>) opts"
  unfolding setRun_def getBody_cryptorand
proof (rule io_bind_cong_result, goal_cases)
  case (1 x)
  obtain opts' body where x: "x = (opts', body)" by (cases x)
  have "snd (getBody d opts) = Inr (opts', body)"
    using 1 x by (simp add: snd_io_wrap split: sum.splits)
  then have ro: "RandomOverride opts' = Some rnd"
    using getBody_keeps_RandomOverride assms by simp
  show ?case
    unfolding x
    by (simp add: ro SealAnonymous_override [of _ _ _ _ rnd sys1 sys2] Let_def
        cong del: if_weak_cong)
qed

text \<open>
  C2. For every plaintext, recipient key and injected randomness source
  (\<^verbatim>\<open>RandomOverride\<close>), two runs of the sealing stage give the same output byte for byte:
  the output does not depend on the randomness of the system, the one input that differs
  between two runs. The same holds for the whole of \<^verbatim>\<open>setRun\<close>, whose calls and result
  are the same in both runs.
\<close>

theorem sealing_deterministic:
  "SealAnonymous p out message recipient (Some rnd) sysA =
     SealAnonymous p out message recipient (Some rnd) sysB \<and>
   (RandomOverride opts = Some rnd \<longrightarrow>
      setRun (d\<lparr>cryptorand := sysA\<rparr>) opts = setRun (d\<lparr>cryptorand := sysB\<rparr>) opts)"
  using SealAnonymous_override setRun_override by blast

theorem sealing_deterministic_witness:
  "setRun (example_deps\<lparr>cryptorand := replicate 32 1\<rparr>)
     (example_opts\<lparr>RandomOverride := Some (replicate 32 5)\<rparr>) =
   setRun (example_deps\<lparr>cryptorand := replicate 32 2\<rparr>)
     (example_opts\<lparr>RandomOverride := Some (replicate 32 5)\<rparr>)"
  using sealing_deterministic
    [where rnd = "replicate 32 5" and sysA = "replicate 32 1" and sysB = "replicate 32 2"
       and opts = "example_opts\<lparr>RandomOverride := Some (replicate 32 5)\<rparr>"
       and d = example_deps]
  by simp

lemma length_le_bytes: "length (le_bytes n w) = n"
  by (simp add: le_bytes_def)

text \<open>
  C3. For every plaintext of length \<open>n\<close>, the sealed output (before base64 encoding) has
  the length of the ephemeral public key (32), plus \<open>n\<close>, plus the length of the
  authentication tag (16), that is \<open>n + 48\<close> bytes; and the sealing does produce an output
  for a 32-byte recipient key and a randomness source that holds 32 bytes.
\<close>

theorem sealed_length:
  "(SealAnonymous p [] message recipient rand sys = Inr sealed \<longrightarrow>
      length sealed = 32 + length message + 16) \<and>
   (length recipient = 32 \<and> 32 \<le> length (case rand of None \<Rightarrow> sys | Some r \<Rightarrow> r) \<longrightarrow>
      (\<exists>s. SealAnonymous p [] message recipient rand sys = Inr s \<and>
           length s = length message + 48))"
  by (auto simp: SealAnonymous_def ReadFull_def Let_def length_le_bytes
      split: if_splits sum.splits)

theorem sealed_length_witness:
  "\<exists>s. SealAnonymous example_nacl [] (bytes_of_string ''val'') (Raw example_key)
          (Some (replicate 32 5)) [] = Inr s \<and> length s = 51"
  using sealed_length
    [of example_nacl "bytes_of_string ''val''" "Raw example_key" "Some (replicate 32 5)" "[]",
      THEN conjunct2]
  by (simp add: example_key_def bytes_of_string_def)

subsection \<open>The flag checks of \<^verbatim>\<open>RunE\<close>\<close>

lemma MutuallyExclusive_two:
  "MutuallyExclusive msg [a, b] = (if a \<and> b then Inl (FlagError (Err msg)) else Inr ())"
  by (simp add: MutuallyExclusive_def)

lemma NewCmdSet_single:
  "NewCmdSet d runF fl [name] =
     (if OrgName (parsed_opts fl) \<noteq> [] \<and> EnvName (parsed_opts fl) \<noteq> [] then
        ([], Inl (FlagError (Err ''specify only one of `--org` or `--env`'')))
      else
        case validSecretName name of
          Inl err \<Rightarrow> ([], Inl err)
        | Inr _ \<Rightarrow>
            (case checkVisibility fl ((parsed_opts fl)\<lparr>SecretName := name\<rparr>) of
               Inl err \<Rightarrow> ([], Inl err)
             | Inr opts \<Rightarrow> run_with d runF opts))"
  by (simp add: NewCmdSet_def Args_def RunE_def MutuallyExclusive_two io_fail_def Let_def
      run_with_def split: sum.splits)

lemma NewCmdSet_fails_early:
  "length args \<noteq> 1 \<Longrightarrow> NewCmdSet d runF fl args = ([], Inl (FlagError (Err ''must pass single secret name'')))"
  by (simp add: NewCmdSet_def Args_def io_fail_def)

lemma args_single: "length args = 1 \<Longrightarrow> \<exists>name. args = [name]"
  by (cases args) auto

lemma NewCmdSet_fails_when_check_fails:
  assumes "\<exists>err. checkVisibility fl ((parsed_opts fl)\<lparr>SecretName := hd args\<rparr>) = Inl err"
  shows "\<exists>err. NewCmdSet d runF fl args = ([], Inl err)"
proof (cases "length args = 1")
  case False
  then show ?thesis by (simp add: NewCmdSet_fails_early)
next
  case True
  then obtain name where a: "args = [name]" using args_single by blast
  from assms a obtain err where
    "checkVisibility fl ((parsed_opts fl)\<lparr>SecretName := name\<rparr>) = Inl err" by auto
  then show ?thesis unfolding a NewCmdSet_single by (simp split: sum.splits)
qed

text \<open>
  C5. For every flag combination in which both \<^verbatim>\<open>orgName\<close> and \<^verbatim>\<open>envName\<close> are non-empty,
  the command fails with the mutual-exclusivity error, whatever the secret name, the
  visibility, the repos and the body; \<^verbatim>\<open>RunE\<close> returns it before it reads its arguments.
\<close>

theorem org_and_env_mutually_exclusive:
  assumes "OrgName (parsed_opts fl) \<noteq> []" and "EnvName (parsed_opts fl) \<noteq> []"
  shows "RunE d runF fl args =
           ([], Inl (FlagError (Err ''specify only one of `--org` or `--env`''))) \<and>
         NewCmdSet d runF fl [name] =
           ([], Inl (FlagError (Err ''specify only one of `--org` or `--env`'')))"
  using assms
  by (simp add: NewCmdSet_def Args_def RunE_def MutuallyExclusive_two io_fail_def Let_def)

theorem org_and_env_mutually_exclusive_witness:
  "NewCmdSet example_deps None
     (example_flags\<lparr>flag_org := Some ''anOrg'', flag_env := Some ''anEnv'',
        flag_visibility := Some ''everyone'', flag_repos := Some [''repo1'']\<rparr>) [''9SECRET'']
   = ([], Inl (FlagError (Err ''specify only one of `--org` or `--env`'')))"
  using org_and_env_mutually_exclusive
    [of "example_flags\<lparr>flag_org := Some ''anOrg'', flag_env := Some ''anEnv'',
        flag_visibility := Some ''everyone'', flag_repos := Some [''repo1'']\<rparr>"
      example_deps None "[]" "''9SECRET''"]
  by (simp add: parsed_opts_def flag_value_def example_flags_def)

lemma checkVisibility_changed:
  assumes "Changed (flag_visibility fl)"
  shows "(visibility_violation fl opts \<longrightarrow>
            (\<exists>msg. checkVisibility fl opts = Inl (FlagError (Err msg)))) \<and>
         (\<not> visibility_violation fl opts \<longrightarrow> checkVisibility fl opts = Inr opts)"
  using assms by (auto simp: checkVisibility_def visibility_violation_def)

text \<open>
  C6. When the visibility flag is explicitly set, the visibility checks fail with a
  \<^verbatim>\<open>FlagError\<close> if (a) \<^verbatim>\<open>orgName\<close> is empty, or (b) the visibility is not one of all,
  private, selected, or (c) the visibility is not selected while the repos flag is
  explicitly set, or (d) the visibility is selected while the repos flag is not explicitly
  set; if none of (a)-(d) holds they pass and leave the options as they are. For a valid
  secret name the command then fails with a \<^verbatim>\<open>FlagError\<close> in the first case, and in the
  second (with no environment given) goes on to the run.
\<close>

theorem visibility_checks:
  assumes "Changed (flag_visibility fl)"
  shows "(visibility_violation fl opts \<longrightarrow>
            (\<exists>msg. checkVisibility fl opts = Inl (FlagError (Err msg)))) \<and>
         (\<not> visibility_violation fl opts \<longrightarrow> checkVisibility fl opts = Inr opts) \<and>
         (validSecretName name = Inr () \<and>
          visibility_violation fl ((parsed_opts fl)\<lparr>SecretName := name\<rparr>) \<longrightarrow>
            (\<exists>msg. NewCmdSet d runF fl [name] = ([], Inl (FlagError (Err msg))))) \<and>
         (validSecretName name = Inr () \<and>
          \<not> visibility_violation fl ((parsed_opts fl)\<lparr>SecretName := name\<rparr>) \<and>
          EnvName (parsed_opts fl) = [] \<longrightarrow>
            NewCmdSet d runF fl [name] =
              run_with d runF ((parsed_opts fl)\<lparr>SecretName := name\<rparr>))"
proof -
  note block = checkVisibility_changed [OF assms]
  have cmd_fail: "\<exists>msg. NewCmdSet d runF fl [name] = ([], Inl (FlagError (Err msg)))"
    if n: "validSecretName name = Inr ()"
      and v: "visibility_violation fl ((parsed_opts fl)\<lparr>SecretName := name\<rparr>)"
  proof -
    obtain msg where "checkVisibility fl ((parsed_opts fl)\<lparr>SecretName := name\<rparr>)
        = Inl (FlagError (Err msg))"
      using block [of "(parsed_opts fl)\<lparr>SecretName := name\<rparr>"] v by blast
    then show ?thesis using n by (simp add: NewCmdSet_single)
  qed
  have cmd_pass: "NewCmdSet d runF fl [name] =
      run_with d runF ((parsed_opts fl)\<lparr>SecretName := name\<rparr>)"
    if "validSecretName name = Inr ()"
      and "\<not> visibility_violation fl ((parsed_opts fl)\<lparr>SecretName := name\<rparr>)"
      and "EnvName (parsed_opts fl) = []"
  proof -
    have "checkVisibility fl ((parsed_opts fl)\<lparr>SecretName := name\<rparr>)
        = Inr ((parsed_opts fl)\<lparr>SecretName := name\<rparr>)"
      using block [of "(parsed_opts fl)\<lparr>SecretName := name\<rparr>"] that(2) by blast
    then show ?thesis using that(1,3) by (simp add: NewCmdSet_single)
  qed
  show ?thesis using block [of opts] cmd_fail cmd_pass by blast
qed

theorem visibility_checks_witness:
  "(\<exists>msg. NewCmdSet example_deps None
      (example_flags\<lparr>flag_org := Some ''anOrg'', flag_visibility := Some ''selected''\<rparr>)
      [''MYSECRET''] = ([], Inl (FlagError (Err msg)))) \<and>
   NewCmdSet example_deps None
      (example_flags\<lparr>flag_org := Some ''anOrg'', flag_visibility := Some ''all''\<rparr>)
      [''MYSECRET''] =
     setRun example_deps
       ((parsed_opts (example_flags\<lparr>flag_org := Some ''anOrg'',
            flag_visibility := Some ''all''\<rparr>))\<lparr>SecretName := ''MYSECRET''\<rparr>)"
proof -
  let ?sel = "example_flags\<lparr>flag_org := Some ''anOrg'', flag_visibility := Some ''selected''\<rparr>"
  let ?all = "example_flags\<lparr>flag_org := Some ''anOrg'', flag_visibility := Some ''all''\<rparr>"
  have name: "validSecretName ''MYSECRET'' = Inr ()"
    by (simp add: validSecretName_rules starts_with_digit_def is_digit_def is_name_char_def)
  have c1: "Changed (flag_visibility ?sel)" and c2: "Changed (flag_visibility ?all)"
    by (simp_all add: Changed_def)
  have v1: "visibility_violation ?sel ((parsed_opts ?sel)\<lparr>SecretName := ''MYSECRET''\<rparr>)"
    by (simp add: visibility_violation_def parsed_opts_def flag_value_def example_flags_def
        Changed_def shared_Selected_def shared_All_def shared_Private_def)
  have v2: "\<not> visibility_violation ?all ((parsed_opts ?all)\<lparr>SecretName := ''MYSECRET''\<rparr>)"
    by (simp add: visibility_violation_def parsed_opts_def flag_value_def example_flags_def
        Changed_def shared_Selected_def shared_All_def shared_Private_def)
  have e2: "EnvName (parsed_opts ?all) = []"
    by (simp add: parsed_opts_def flag_value_def example_flags_def)
  from visibility_checks [OF c1, of _ "''MYSECRET''" example_deps None] name v1
  have "\<exists>msg. NewCmdSet example_deps None ?sel [''MYSECRET''] = ([], Inl (FlagError (Err msg)))"
    by blast
  moreover
  from visibility_checks [OF c2, of _ "''MYSECRET''" example_deps None] name v2 e2
  have "NewCmdSet example_deps None ?all [''MYSECRET''] =
      run_with example_deps None ((parsed_opts ?all)\<lparr>SecretName := ''MYSECRET''\<rparr>)"
    by blast
  ultimately show ?thesis by (simp add: run_with_def)
qed

text \<open>
  C7 as stated does not hold: with the visibility selected and the non-empty repository
  list \<^verbatim>\<open>[repo1]\<close>, but no organization, the command fails with the error of check (a).
\<close>

theorem selected_needs_org_counterexample:
  "NewCmdSet example_deps None
     (example_flags\<lparr>flag_visibility := Some ''selected'', flag_repos := Some [''repo1'']\<rparr>)
     [''MYSECRET'']
   = ([], Inl (FlagError (Err msg_visibility_needs_org)))"
  by (simp add: NewCmdSet_single MYSECRET_valid checkVisibility_def Changed_def example_defs)

text \<open>
  C7, amended. With the visibility flag explicitly set to selected: the command always
  fails when the repos flag is not given (the repository-name list is then empty); with a
  non-empty repository-name list and a valid secret name it succeeds, going on to the run
  with visibility selected and that list, exactly when \<^verbatim>\<open>orgName\<close> is non-empty and
  \<^verbatim>\<open>envName\<close> is empty, and otherwise fails with a \<^verbatim>\<open>FlagError\<close>. With the visibility flag
  explicitly set to any other value together with a non-empty repository-name list, it
  always fails.
\<close>

theorem selected_visibility_and_repos:
  "(flag_visibility fl = Some shared_Selected \<and> flag_repos fl = None \<longrightarrow>
      (\<exists>err. NewCmdSet d runF fl args = ([], Inl err))) \<and>
   (flag_visibility fl = Some shared_Selected \<and> flag_repos fl = Some rs \<and> rs \<noteq> [] \<and>
    validSecretName name = Inr () \<longrightarrow>
      (if OrgName (parsed_opts fl) \<noteq> [] \<and> EnvName (parsed_opts fl) = [] then
         NewCmdSet d runF fl [name] =
           run_with d runF ((parsed_opts fl)\<lparr>SecretName := name\<rparr>) \<and>
         Visibility (parsed_opts fl) = shared_Selected \<and>
         RepositoryNames (parsed_opts fl) = rs
       else (\<exists>msg. NewCmdSet d runF fl [name] = ([], Inl (FlagError (Err msg)))))) \<and>
   (flag_visibility fl = Some v \<and> v \<noteq> shared_Selected \<and> flag_repos fl = Some rs \<and> rs \<noteq> [] \<longrightarrow>
      (\<exists>err. NewCmdSet d runF fl args = ([], Inl err)))"
proof (intro conjI impI)
  assume h: "flag_visibility fl = Some shared_Selected \<and> flag_repos fl = None"
  have "\<exists>err. checkVisibility fl ((parsed_opts fl)\<lparr>SecretName := hd args\<rparr>) = Inl err"
    using h by (simp add: checkVisibility_def Changed_def parsed_opts_def flag_value_def)
  then show "\<exists>err. NewCmdSet d runF fl args = ([], Inl err)"
    by (rule NewCmdSet_fails_when_check_fails)
next
  assume h: "flag_visibility fl = Some shared_Selected \<and> flag_repos fl = Some rs \<and> rs \<noteq> [] \<and>
    validSecretName name = Inr ()"
  show "if OrgName (parsed_opts fl) \<noteq> [] \<and> EnvName (parsed_opts fl) = [] then
         NewCmdSet d runF fl [name] =
           run_with d runF ((parsed_opts fl)\<lparr>SecretName := name\<rparr>) \<and>
         Visibility (parsed_opts fl) = shared_Selected \<and>
         RepositoryNames (parsed_opts fl) = rs
       else (\<exists>msg. NewCmdSet d runF fl [name] = ([], Inl (FlagError (Err msg))))"
    using h
    by (simp add: NewCmdSet_single checkVisibility_def Changed_def parsed_opts_def
        flag_value_def)
next
  assume h: "flag_visibility fl = Some v \<and> v \<noteq> shared_Selected \<and> flag_repos fl = Some rs \<and> rs \<noteq> []"
  have "\<exists>err. checkVisibility fl ((parsed_opts fl)\<lparr>SecretName := hd args\<rparr>) = Inl err"
    using h by (simp add: checkVisibility_def Changed_def parsed_opts_def flag_value_def)
  then show "\<exists>err. NewCmdSet d runF fl args = ([], Inl err)"
    by (rule NewCmdSet_fails_when_check_fails)
qed

theorem selected_visibility_and_repos_witness:
  "NewCmdSet example_deps None
     (example_flags\<lparr>flag_org := Some ''anOrg'', flag_visibility := Some ''selected'',
        flag_repos := Some [''repo1'']\<rparr>) [''MYSECRET'']
   = setRun example_deps
       ((parsed_opts (example_flags\<lparr>flag_org := Some ''anOrg'',
           flag_visibility := Some ''selected'', flag_repos := Some [''repo1'']\<rparr>))
        \<lparr>SecretName := ''MYSECRET''\<rparr>)"
  using selected_visibility_and_repos
    [of "example_flags\<lparr>flag_org := Some ''anOrg'', flag_visibility := Some ''selected'',
        flag_repos := Some [''repo1'']\<rparr>" example_deps None "[]" "[''repo1'']" "''MYSECRET''"]
    MYSECRET_valid
  by (simp add: shared_Selected_def run_with_def example_flags_def parsed_opts_def
      flag_value_def)

text \<open>
  The checks read whether the repos flag was passed, not the list itself: with an
  organization, the visibility selected and the repos flag passed with an empty list, the
  command goes on to the run.
\<close>

lemma selected_with_explicit_empty_repos:
  "NewCmdSet example_deps None
     (example_flags\<lparr>flag_org := Some ''anOrg'', flag_visibility := Some ''selected'',
        flag_repos := Some []\<rparr>) [''MYSECRET'']
   = setRun example_deps
       ((parsed_opts (example_flags\<lparr>flag_org := Some ''anOrg'',
           flag_visibility := Some ''selected'', flag_repos := Some []\<rparr>))
        \<lparr>SecretName := ''MYSECRET''\<rparr>)"
  by (simp add: NewCmdSet_single MYSECRET_valid checkVisibility_def Changed_def run_with_def
      shared_Selected_def shared_All_def shared_Private_def example_flags_def parsed_opts_def
      flag_value_def)

text \<open>
  C8 as stated does not hold: with the visibility flag not set and the repos flag set,
  but both an organization and an environment given, the invocation fails with the
  mutual-exclusivity \<^verbatim>\<open>FlagError\<close>.
\<close>

theorem repos_imply_selected_counterexample:
  "NewCmdSet example_deps None
     (example_flags\<lparr>flag_org := Some ''anOrg'', flag_env := Some ''anEnv'',
        flag_repos := Some [''repo1'', ''repo2'']\<rparr>) [''MYSECRET'']
   = ([], Inl (FlagError (Err ''specify only one of `--org` or `--env`'')))"
  by (simp add: NewCmdSet_single example_defs)

text \<open>
  C8, amended. For every invocation in which the visibility flag is not explicitly set
  but the repos flag is, the visibility checks raise no error and set the visibility to
  selected; when in addition \<^verbatim>\<open>orgName\<close> and \<^verbatim>\<open>envName\<close> are not both non-empty and the
  secret name is valid, the command goes on to the run with visibility selected.
\<close>

theorem repos_imply_selected:
  assumes "flag_visibility fl = None" and "flag_repos fl = Some rs"
  shows "checkVisibility fl opts = Inr (opts\<lparr>Visibility := shared_Selected\<rparr>) \<and>
         (validSecretName name = Inr () \<and>
          \<not> (OrgName (parsed_opts fl) \<noteq> [] \<and> EnvName (parsed_opts fl) \<noteq> []) \<longrightarrow>
            NewCmdSet d runF fl [name] =
              run_with d runF
                ((parsed_opts fl)\<lparr>SecretName := name, Visibility := shared_Selected\<rparr>))"
  using assms
  by (auto simp: NewCmdSet_single checkVisibility_def Changed_def)

theorem repos_imply_selected_witness:
  "NewCmdSet example_deps None
     (example_flags\<lparr>flag_org := Some ''anOrg'', flag_repos := Some [''repo1'', ''repo2'']\<rparr>)
     [''MYSECRET'']
   = setRun example_deps
       ((parsed_opts (example_flags\<lparr>flag_org := Some ''anOrg'',
           flag_repos := Some [''repo1'', ''repo2'']\<rparr>))
        \<lparr>SecretName := ''MYSECRET'', Visibility := ''selected''\<rparr>)"
  using repos_imply_selected
    [of "example_flags\<lparr>flag_org := Some ''anOrg'', flag_repos := Some [''repo1'', ''repo2'']\<rparr>"
       "[''repo1'', ''repo2'']" _ "''MYSECRET''" example_deps None]
    MYSECRET_valid
  by (simp add: shared_Selected_def run_with_def example_flags_def parsed_opts_def
      flag_value_def)

subsection \<open>The order of the stages\<close>

lemma orderly_io_return: "orderly (io_return x)"
  by (simp add: orderly_def io_return_def)

lemma orderly_io_call: "orderly (io_call ev r)"
  by (simp add: orderly_def io_call_def split: sum.splits)

lemma orderly_io_wrap: "orderly m \<Longrightarrow> orderly (io_wrap msg m)"
  by (cases m) (auto simp: orderly_def io_wrap_def split: sum.splits)

lemma list_all_butlast: "list_all P xs \<Longrightarrow> list_all P (butlast xs)"
  by (auto simp: list_all_iff dest: in_set_butlastD)

lemma orderly_io_bind:
  assumes "orderly m" and "\<And>x. snd m = Inr x \<Longrightarrow> orderly (f x)"
  shows "orderly (io_bind m f)"
proof (cases "snd m")
  case (Inl err)
  then show ?thesis using assms(1) by (simp add: orderly_def io_bind_def)
next
  case (Inr x)
  have all: "list_all snd (fst m)" using assms(1) Inr by (simp add: orderly_def)
  have fx: "orderly (f x)" using assms(2) Inr by simp
  show ?thesis
    using Inr all fx
    by (auto simp: orderly_def io_bind_def butlast_append list_all_butlast split: sum.splits)
qed

lemma orderly_getBody: "orderly (getBody d opts)"
  unfolding getBody_def Let_def
  by (intro orderly_io_bind orderly_io_wrap orderly_io_call orderly_io_return
      if_split [where P = orderly, THEN iffD2] conjI impI)

lemma orderly_if: "(c \<Longrightarrow> orderly a) \<Longrightarrow> (\<not> c \<Longrightarrow> orderly b) \<Longrightarrow> orderly (if c then a else b)"
  by simp

lemma orderly_case_prod: "(\<And>a b. x = (a, b) \<Longrightarrow> orderly (f a b)) \<Longrightarrow> orderly (case x of (a, b) \<Rightarrow> f a b)"
  by (cases x) simp

lemma orderly_setRun: "orderly (setRun d opts)"
  unfolding setRun_def Let_def
  by (intro orderly_io_bind orderly_io_wrap orderly_io_call orderly_io_return orderly_getBody
      orderly_if orderly_case_prod)

lemma getBody_stages: "stages (fst (getBody d opts)) = []"
  by (simp add: getBody_def io_simps Let_def split: sum.splits)

lemma setRun_stages:
  "stages (fst (setRun d opts)) \<in>
     set [[], [PublicKeyProvider], [PublicKeyProvider, SealedBoxEncryptor],
          [PublicKeyProvider, SealedBoxEncryptor, SecretDispatcher]] \<and>
   (snd (setRun d opts) = Inr () \<longrightarrow>
      stages (fst (setRun d opts)) =
        [PublicKeyProvider, SealedBoxEncryptor, SecretDispatcher])"
proof (cases "snd (getBody d opts)")
  case (Inl err)
  then show ?thesis
    by (simp add: setRun_def io_simps getBody_stages)
next
  case (Inr r)
  obtain opts' body where r: "r = (opts', body)" by (cases r)
  show ?thesis
    using Inr r
    by (simp add: setRun_def io_simps Let_def getBody_stages split: sum.splits)
qed

text \<open>
  C9 as stated does not hold: for the invalid name \<^verbatim>\<open>9SECRET\<close> with both an organization
  and an environment given, the command returns the mutual-exclusivity error of the
  target resolution, not the name error.
\<close>

theorem name_error_first_counterexample:
  "validSecretName ''9SECRET'' = Inl (Err ''secret name cannot start with a number'') \<and>
   NewCmdSet example_deps None
     (example_flags\<lparr>flag_org := Some ''anOrg'', flag_env := Some ''anEnv''\<rparr>) [''9SECRET'']
   = ([], Inl (FlagError (Err ''specify only one of `--org` or `--env`'')))"
  by (simp add: NINE_invalid NewCmdSet_single example_defs)

text \<open>
  C9, amended. The command checks in this order, each check only after the previous one
  passed and before any collaborator is called: that \<^verbatim>\<open>orgName\<close> and \<^verbatim>\<open>envName\<close> are not
  both given, then the secret name, then the visibility flags; then it runs \<^verbatim>\<open>setRun\<close>.
  So for every input whose secret name is invalid and whose \<^verbatim>\<open>orgName\<close> and \<^verbatim>\<open>envName\<close>
  are not both non-empty, the name error is returned before any visibility check and with
  no call made. In \<^verbatim>\<open>setRun\<close> the public-key fetch, the sealing and the dispatch happen at
  most once each and in this order, all three in a run that succeeds, and no call is made
  after a call that failed.
\<close>

theorem pipeline_order:
  "(OrgName (parsed_opts fl) \<noteq> [] \<and> EnvName (parsed_opts fl) \<noteq> [] \<longrightarrow>
      NewCmdSet d None fl [name] =
        ([], Inl (FlagError (Err ''specify only one of `--org` or `--env`'')))) \<and>
   (\<not> (OrgName (parsed_opts fl) \<noteq> [] \<and> EnvName (parsed_opts fl) \<noteq> []) \<and>
    validSecretName name = Inl err \<longrightarrow>
      NewCmdSet d None fl [name] = ([], Inl err)) \<and>
   (\<not> (OrgName (parsed_opts fl) \<noteq> [] \<and> EnvName (parsed_opts fl) \<noteq> []) \<and>
    validSecretName name = Inr () \<and>
    checkVisibility fl ((parsed_opts fl)\<lparr>SecretName := name\<rparr>) = Inl err \<longrightarrow>
      NewCmdSet d None fl [name] = ([], Inl err)) \<and>
   (\<not> (OrgName (parsed_opts fl) \<noteq> [] \<and> EnvName (parsed_opts fl) \<noteq> []) \<and>
    validSecretName name = Inr () \<and>
    checkVisibility fl ((parsed_opts fl)\<lparr>SecretName := name\<rparr>) = Inr opts \<longrightarrow>
      NewCmdSet d None fl [name] = setRun d opts) \<and>
   stages (fst (setRun d opts)) \<in>
     set [[], [PublicKeyProvider], [PublicKeyProvider, SealedBoxEncryptor],
          [PublicKeyProvider, SealedBoxEncryptor, SecretDispatcher]] \<and>
   (snd (setRun d opts) = Inr () \<longrightarrow>
      stages (fst (setRun d opts)) =
        [PublicKeyProvider, SealedBoxEncryptor, SecretDispatcher]) \<and>
   list_all snd (butlast (fst (setRun d opts)))"
proof -
  have checks:
    "(OrgName (parsed_opts fl) \<noteq> [] \<and> EnvName (parsed_opts fl) \<noteq> [] \<longrightarrow>
      NewCmdSet d None fl [name] =
        ([], Inl (FlagError (Err ''specify only one of `--org` or `--env`'')))) \<and>
   (\<not> (OrgName (parsed_opts fl) \<noteq> [] \<and> EnvName (parsed_opts fl) \<noteq> []) \<and>
    validSecretName name = Inl err \<longrightarrow>
      NewCmdSet d None fl [name] = ([], Inl err)) \<and>
   (\<not> (OrgName (parsed_opts fl) \<noteq> [] \<and> EnvName (parsed_opts fl) \<noteq> []) \<and>
    validSecretName name = Inr () \<and>
    checkVisibility fl ((parsed_opts fl)\<lparr>SecretName := name\<rparr>) = Inl err \<longrightarrow>
      NewCmdSet d None fl [name] = ([], Inl err)) \<and>
   (\<not> (OrgName (parsed_opts fl) \<noteq> [] \<and> EnvName (parsed_opts fl) \<noteq> []) \<and>
    validSecretName name = Inr () \<and>
    checkVisibility fl ((parsed_opts fl)\<lparr>SecretName := name\<rparr>) = Inr opts \<longrightarrow>
      NewCmdSet d None fl [name] = setRun d opts)"
    by (simp add: NewCmdSet_single run_with_def)
  have "list_all snd (butlast (fst (setRun d opts)))"
    using orderly_setRun [of d opts] by (simp add: orderly_def)
  with checks setRun_stages [of d opts] show ?thesis by blast
qed

theorem pipeline_order_witness:
  "NewCmdSet example_deps None (example_flags\<lparr>flag_visibility := Some ''everyone''\<rparr>)
     [''9SECRET'']
   = ([], Inl (Err ''secret name cannot start with a number'')) \<and>
   stages (fst (setRun example_deps example_opts)) =
     [PublicKeyProvider, SealedBoxEncryptor, SecretDispatcher]"
proof -
  note po = pipeline_order
    [where fl = "example_flags\<lparr>flag_visibility := Some ''everyone''\<rparr>" and d = example_deps
       and name = "''9SECRET''" and err = "Err ''secret name cannot start with a number''"
       and opts = example_opts]
  have "\<not> (OrgName (parsed_opts (example_flags\<lparr>flag_visibility := Some ''everyone''\<rparr>)) \<noteq> [] \<and>
      EnvName (parsed_opts (example_flags\<lparr>flag_visibility := Some ''everyone''\<rparr>)) \<noteq> [])"
    by (simp add: example_defs)
  with po NINE_invalid setRun_example_ok show ?thesis by blast
qed

subsection \<open>The body\<close>

text \<open>
  C10. A body flag explicitly set to the empty string is indistinguishable from an absent
  body flag: the command behaves the same. Whenever \<^verbatim>\<open>opts.Body\<close> is empty, the plaintext
  is not the flag's value but the answer of the interactive prompt when prompting is
  possible, and otherwise the entire contents of standard input.
\<close>

theorem empty_body_as_absent:
  "NewCmdSet d runF (fl\<lparr>flag_body := Some []\<rparr>) args =
     NewCmdSet d runF (fl\<lparr>flag_body := None\<rparr>) args \<and>
   (Body opts = [] \<longrightarrow>
      getBody d opts =
        (if CanPrompt d then
           (case SurveyAskOne d of
              Inl err \<Rightarrow> ([(EvSurveyAskOne, False)], Inl err)
            | Inr answer \<Rightarrow>
                ([(EvSurveyAskOne, True), (EvFprintln, True)],
                 Inr (opts\<lparr>Body := answer\<rparr>, bytes_of_string answer)))
         else
           (case ReadAll d of
              Inl err \<Rightarrow> ([(EvReadAll, False)], Inl (Wrapped ''failed to read from STDIN'' err))
            | Inr content \<Rightarrow> ([(EvReadAll, True)], Inr (opts, content)))))"
proof
  have p: "parsed_opts (fl\<lparr>flag_body := Some []\<rparr>) = parsed_opts (fl\<lparr>flag_body := None\<rparr>)"
    by (simp add: parsed_opts_def flag_value_def)
  have c: "\<And>opts1. checkVisibility (fl\<lparr>flag_body := Some []\<rparr>) opts1 =
      checkVisibility (fl\<lparr>flag_body := None\<rparr>) opts1"
    by (simp add: checkVisibility_def)
  have "RunE d runF (fl\<lparr>flag_body := Some []\<rparr>) args =
      RunE d runF (fl\<lparr>flag_body := None\<rparr>) args"
    unfolding RunE_def p c ..
  then show "NewCmdSet d runF (fl\<lparr>flag_body := Some []\<rparr>) args =
     NewCmdSet d runF (fl\<lparr>flag_body := None\<rparr>) args"
    by (simp only: NewCmdSet_def)
next
  show "Body opts = [] \<longrightarrow>
      getBody d opts =
        (if CanPrompt d then
           (case SurveyAskOne d of
              Inl err \<Rightarrow> ([(EvSurveyAskOne, False)], Inl err)
            | Inr answer \<Rightarrow>
                ([(EvSurveyAskOne, True), (EvFprintln, True)],
                 Inr (opts\<lparr>Body := answer\<rparr>, bytes_of_string answer)))
         else
           (case ReadAll d of
              Inl err \<Rightarrow> ([(EvReadAll, False)], Inl (Wrapped ''failed to read from STDIN'' err))
            | Inr content \<Rightarrow> ([(EvReadAll, True)], Inr (opts, content))))"
    by (simp add: getBody_def io_bind_def io_wrap_def io_call_def io_return_def Let_def
        split: sum.splits)
qed

theorem empty_body_as_absent_witness:
  "getBody example_deps ((parsed_opts (example_flags\<lparr>flag_body := Some []\<rparr>)))
     = ([(EvReadAll, True)],
        Inr (parsed_opts (example_flags\<lparr>flag_body := Some []\<rparr>), bytes_of_string ''piped''))"
  using empty_body_as_absent
    [of example_deps None example_flags "[]" "parsed_opts (example_flags\<lparr>flag_body := Some []\<rparr>)",
      THEN conjunct2]
  by (simp add: parsed_opts_def flag_value_def example_deps_def)

end
